theory Spec2Isabelle
  imports Main "HOL-Library.Word" "HOL-Library.Char_ord" "HOL-Library.List_Lexorder"
begin

section \<open>The C library functions the address code calls\<close>

text \<open>
  \<^verbatim>\<open>src/data/ip_address.c\<close> formats through \<^verbatim>\<open>inet_ntop\<close> (build with
  \<^verbatim>\<open>SYSTEMD\<close>) or \<^verbatim>\<open>snprintf\<close> (build without) and releases through
  \<^verbatim>\<open>free\<close>. These belong to the C library, not to the repository; they are
  modelled here as the GNU C library on Linux behaves.

  The caller's output array is a \<open>char list\<close>: all the bytes of the array the
  pointer \<^verbatim>\<open>buffer\<close> points into. The capacity \<^verbatim>\<open>buffer_size\<close> is a separate
  argument, as in C, and nothing forces it to agree with the array. A result
  \<open>None\<close> stands for undefined behaviour: a store behind the end of the array,
  a read through a dangling pointer, or \<^verbatim>\<open>free\<close> of a block that is not live.
\<close>

type_synonym byte = "8 word"

definition NUL :: char where
  "NUL = CHR 0x00"

text \<open>The C string an array holds: its bytes before the first terminator.\<close>

definition c_str :: "char list \<Rightarrow> string" where
  "c_str buf = takeWhile (\<lambda>c. c \<noteq> NUL) buf"

text \<open>Storing \<open>bs\<close> at the start of the array \<open>buf\<close>; the other bytes stay.\<close>

definition store :: "char list \<Rightarrow> char list \<Rightarrow> char list option" where
  "store buf bs =
     (if length bs \<le> length buf then Some (bs @ drop (length bs) buf) else None)"

text \<open>\<^verbatim>\<open>%u\<close> and \<^verbatim>\<open>%x\<close>: no padding, lower-case digits.\<close>

definition digit :: "nat \<Rightarrow> char" where
  "digit k = ''0123456789abcdef'' ! k"

fun dec :: "nat \<Rightarrow> string" where
  "dec n = (if n < 10 then [digit n] else dec (n div 10) @ [digit (n mod 10)])"

fun hex :: "nat \<Rightarrow> string" where
  "hex n = (if n < 16 then [digit n] else hex (n div 16) @ [digit (n mod 16)])"

declare dec.simps [simp del] hex.simps [simp del]

subsection \<open>\<^verbatim>\<open>inet_ntop\<close>\<close>

text \<open>The address families, with the values \<^verbatim>\<open><sys/socket.h>\<close> gives them on Linux.\<close>

definition AF_INET :: int where "AF_INET = 2"
definition AF_INET6 :: int where "AF_INET6 = 10"

text \<open>
  \<^verbatim>\<open>inet_ntop\<close> returns its \<^verbatim>\<open>dst\<close> argument, or a null pointer (\<^verbatim>\<open>ENOSPC\<close>
  when the text with its terminator exceeds the size \<open>n\<close> it is given, \<^verbatim>\<open>EAFNOSUPPORT\<close> for
  another family). It builds the text in an array of its own and copies it only
  when it fits, so a null return leaves \<^verbatim>\<open>dst\<close> as it was.
\<close>

datatype ntop = NTOP_NULL | NTOP_DST "char list"

fun dotted_quad :: "byte list \<Rightarrow> string" where
  "dotted_quad (a # b # c # d # _) =
     dec (unat a) @ ''.'' @ dec (unat b) @ ''.'' @ dec (unat c) @ ''.'' @ dec (unat d)"
| "dotted_quad _ = []"

definition copy_out :: "string \<Rightarrow> char list \<Rightarrow> nat \<Rightarrow> ntop option" where
  "copy_out text dst n =
     (if length text + 1 > n then Some NTOP_NULL
      else map_option NTOP_DST (store dst (text @ [NUL])))"

definition inet_ntop4 :: "byte list \<Rightarrow> char list \<Rightarrow> nat \<Rightarrow> ntop option" where
  "inet_ntop4 src dst n = copy_out (dotted_quad src) dst n"

text \<open>
  The sixteen bytes as eight 16-bit groups, the longest run of zero groups
  (the first one among equals, and only if at least two groups long) written as
  \<^verbatim>\<open>::\<close>, and the last four bytes in dotted form for an IPv4-compatible or
  IPv4-mapped address.
\<close>

record run =
  base :: int
  len :: int

fun groups :: "byte list \<Rightarrow> nat list" where
  "groups (hi # lo # rest) = (256 * unat hi + unat lo) # groups rest"
| "groups _ = []"

fun scan_runs :: "nat list \<Rightarrow> int \<Rightarrow> run \<Rightarrow> run \<Rightarrow> run \<times> run" where
  "scan_runs [] i best cur = (best, cur)"
| "scan_runs (w # ws) i best cur =
     (if w = 0 then
        (if base cur = -1 then scan_runs ws (i + 1) best \<lparr>base = i, len = 1\<rparr>
         else scan_runs ws (i + 1) best (cur\<lparr>len := len cur + 1\<rparr>))
      else if base cur \<noteq> -1 then
        scan_runs ws (i + 1)
          (if base best = -1 \<or> len cur > len best then cur else best)
          (cur\<lparr>base := -1\<rparr>)
      else scan_runs ws (i + 1) best cur)"

definition best_run :: "nat list \<Rightarrow> run" where
  "best_run ws =
     (let (best, cur) = scan_runs ws 0 \<lparr>base = -1, len = 0\<rparr> \<lparr>base = -1, len = 0\<rparr>;
          best' = (if base cur \<noteq> -1 \<and> (base best = -1 \<or> len cur > len best)
                   then cur else best)
      in if base best' \<noteq> -1 \<and> len best' < 2 then best'\<lparr>base := -1\<rparr> else best')"

fun emit_groups :: "run \<Rightarrow> nat list \<Rightarrow> byte list \<Rightarrow> nat \<Rightarrow> nat list \<Rightarrow> string" where
  "emit_groups best words src i [] = []"
| "emit_groups best words src i (w # ws) =
     (if base best \<noteq> -1 \<and> base best \<le> int i \<and> int i < base best + len best then
        (if int i = base best then '':'' else []) @ emit_groups best words src (i + 1) ws
      else
        (if i \<noteq> 0 then '':'' else []) @
        (if i = 6 \<and> base best = 0 \<and>
            (len best = 6 \<or> (len best = 5 \<and> words ! 5 = 0xffff))
         then dotted_quad (drop 12 src)
         else hex w @ emit_groups best words src (i + 1) ws))"

definition colon_hex :: "byte list \<Rightarrow> string" where
  "colon_hex src =
     (let words = groups (take 16 src); best = best_run words
      in emit_groups best words src 0 words @
         (if base best \<noteq> -1 \<and> base best + len best = 8 then '':'' else []))"

definition inet_ntop6 :: "byte list \<Rightarrow> char list \<Rightarrow> nat \<Rightarrow> ntop option" where
  "inet_ntop6 src dst n = copy_out (colon_hex src) dst n"

definition inet_ntop :: "int \<Rightarrow> byte list \<Rightarrow> char list \<Rightarrow> nat \<Rightarrow> ntop option" where
  "inet_ntop af src dst n =
     (if af = AF_INET then inet_ntop4 src dst n
      else if af = AF_INET6 then inet_ntop6 src dst n
      else Some NTOP_NULL)"

subsection \<open>\<^verbatim>\<open>snprintf\<close> with the format \<^verbatim>\<open>"%s"\<close>, and \<^verbatim>\<open>free\<close>\<close>

text \<open>
  \<^verbatim>\<open>snprintf (buf, n, "%s", s)\<close> stores at most \<open>n - 1\<close> bytes of \<open>s\<close> and a
  terminator (nothing at all when \<open>n = 0\<close>) and returns the length of the whole
  of \<open>s\<close>, whether or not it was cut. The length is returned as an \<^verbatim>\<open>int\<close>:
  for a text longer than \<^verbatim>\<open>INT_MAX\<close> the call returns -1 (\<^verbatim>\<open>EOVERFLOW\<close>),
  the cut text stored all the same. The C standard leaves a null pointer for
  \<^verbatim>\<open>%s\<close> undefined; the GNU C library prints \<^verbatim>\<open>(null)\<close> for it, which is
  what the model does.

  The heap maps the address of each live block to the C string it holds (the
  bytes before the terminator); the address 0 is the null pointer. The log
  \<open>freed\<close> lists the blocks handed back by \<^verbatim>\<open>free\<close>.
\<close>

record heap =
  blocks :: "nat \<rightharpoonup> string"
  freed :: "nat list"

definition INT_MAX :: int where
  "INT_MAX = 2147483647"

definition snprintf_s :: "char list \<Rightarrow> nat \<Rightarrow> string \<Rightarrow> (int \<times> char list) option" where
  "snprintf_s buf n s =
     (let r = (if int (length s) > INT_MAX then -1 else int (length s))
      in if n = 0 then Some (r, buf)
         else map_option (Pair r) (store buf (take (n - 1) s @ [NUL])))"

definition string_arg :: "heap \<Rightarrow> nat \<Rightarrow> string option" where
  "string_arg h p = (if p = 0 then Some ''(null)'' else blocks h p)"

definition c_free :: "heap \<Rightarrow> nat \<Rightarrow> heap option" where
  "c_free h p =
     (if p = 0 then Some h
      else if blocks h p = None then None
      else Some (h\<lparr>blocks := (blocks h)(p := None), freed := freed h @ [p]\<rparr>))"

section \<open>The address value: \<^verbatim>\<open>src/data/ip_address.c\<close>\<close>

text \<open>
  Modelled from the spec: the declaration of \<^verbatim>\<open>system_ip_address_t\<close> is in
  \<^verbatim>\<open>ip_address.h\<close>, which is not among the sources. The spec gives it a
  \<open>family\<close> and a \<open>value\<close>; the value is a fixed binary buffer in the build with
  \<^verbatim>\<open>SYSTEMD\<close> (the code reads its members \<^verbatim>\<open>v4\<close> and \<^verbatim>\<open>v6\<close>, so a union of
  4 and 16 bytes: 16 bytes of storage, \<^verbatim>\<open>v4\<close> its first four) and a pointer to an
  owned C string in the build without (the code tests it against null and frees
  it). The member \<^verbatim>\<open>value\<close> is written \<open>val\<close> here, \<open>value\<close> being a keyword
  of Isabelle. In the build with \<^verbatim>\<open>SYSTEMD\<close> a value holds the 16 bytes of the
  union; in the build without, the address of its text in the heap, 0 for the
  null pointer.
\<close>

record 'v system_ip_address =
  family :: int
  val :: 'v

definition v4 :: "byte list system_ip_address \<Rightarrow> byte list" where
  "v4 address = take 4 (val address)"

definition v6 :: "byte list system_ip_address \<Rightarrow> byte list" where
  "v6 address = take 16 (val address)"

text \<open>\<^verbatim>\<open>*address = (system_ip_address_t){0}\<close>, in either build.\<close>

definition system_ip_address_init_systemd ::
    "byte list system_ip_address \<Rightarrow> byte list system_ip_address" where
  "system_ip_address_init_systemd address = \<lparr>family = 0, val = replicate 16 0\<rparr>"

definition system_ip_address_init_plain ::
    "nat system_ip_address \<Rightarrow> nat system_ip_address" where
  "system_ip_address_init_plain address = \<lparr>family = 0, val = 0\<rparr>"

text \<open>
  \<^verbatim>\<open>system_ip_address_to_str\<close> after the preprocessor, once for each build. The
  result is the \<^verbatim>\<open>int\<close> returned and the caller's array afterwards. In the build
  with \<^verbatim>\<open>SYSTEMD\<close> the \<^verbatim>\<open>AF_INET\<close> case returns 0 after a successful call; the
  \<^verbatim>\<open>AF_INET6\<close> case only breaks out of the switch, to the \<^verbatim>\<open>return -1\<close> that
  ends the function.
\<close>

definition system_ip_address_to_str_systemd ::
    "byte list system_ip_address \<Rightarrow> char list \<Rightarrow> nat \<Rightarrow> (int \<times> char list) option" where
  "system_ip_address_to_str_systemd address buffer buffer_size =
     (if family address = AF_INET then
        (case inet_ntop AF_INET (v4 address) buffer buffer_size of
           None \<Rightarrow> None
         | Some NTOP_NULL \<Rightarrow> Some (-1, buffer)
         | Some (NTOP_DST b) \<Rightarrow> Some (0, b))
      else if family address = AF_INET6 then
        (case inet_ntop AF_INET6 (v6 address) buffer buffer_size of
           None \<Rightarrow> None
         | Some NTOP_NULL \<Rightarrow> Some (-1, buffer)
         | Some (NTOP_DST b) \<Rightarrow> Some (-1, b))
      else Some (-1, buffer))"

definition system_ip_address_to_str_plain ::
    "heap \<Rightarrow> nat system_ip_address \<Rightarrow> char list \<Rightarrow> nat \<Rightarrow> (int \<times> char list) option" where
  "system_ip_address_to_str_plain h address buffer buffer_size =
     (case string_arg h (val address) of
        None \<Rightarrow> None
      | Some s \<Rightarrow>
          (case snprintf_s buffer buffer_size s of
             None \<Rightarrow> None
           | Some (r, b) \<Rightarrow> Some (if r > 0 then 0 else -1, b)))"

text \<open>\<^verbatim>\<open>system_ip_address_free\<close>, once for each build.\<close>

definition system_ip_address_free_systemd ::
    "byte list system_ip_address \<Rightarrow> byte list system_ip_address" where
  "system_ip_address_free_systemd address = system_ip_address_init_systemd address"

definition system_ip_address_free_plain ::
    "heap \<Rightarrow> nat system_ip_address \<Rightarrow> (heap \<times> nat system_ip_address) option" where
  "system_ip_address_free_plain h address =
     (case (if val address \<noteq> 0 then c_free h (val address) else Some h) of
        None \<Rightarrow> None
      | Some h' \<Rightarrow> Some (h', system_ip_address_init_plain address))"

section \<open>The host clock: \<^verbatim>\<open>SystemState::getClockInfo\<close> in \<^verbatim>\<open>src/core/api.cpp\<close>\<close>

text \<open>
  \<^verbatim>\<open>getClockInfo\<close> reads the clock with \<^verbatim>\<open>time\<close>, the uptime with
  \<^verbatim>\<open>sysinfo\<close>, and turns both instants into text with \<^verbatim>\<open>localtime\<close> and
  \<^verbatim>\<open>strftime\<close>. What the operating system answers is the input of the model:
  the clock reading, the rules of the local time zone (the offset from UTC in
  force at each instant, in seconds), the value \<^verbatim>\<open>sysinfo\<close> returns and the
  uptime it reports. \<^verbatim>\<open>time_t\<close> and \<^verbatim>\<open>long\<close> are 64 bits wide.
\<close>

record host =
  clock :: "64 word"
  utc_offset :: "int \<Rightarrow> int"
  sysinfo_ret :: int
  uptime :: "64 word"

subsection \<open>\<^verbatim>\<open>localtime\<close>\<close>

text \<open>The members of \<^verbatim>\<open>struct tm\<close> that the format reads.\<close>

record tm =
  tm_sec :: int
  tm_min :: int
  tm_hour :: int
  tm_mday :: int
  tm_mon :: int
  tm_year :: int

text \<open>
  The date of a day number (days since 1970-01-01) in the proleptic Gregorian
  calendar. Days are counted from the first of March of year 0 and split into
  eras of 400 years (146097 days), then into at most 3 whole centuries of 36524
  days, at most 24 whole groups of four years (1461 days) and at most 3 whole
  years of 365 days, each starting in March, so that a leap day is the last day
  of its group. \<open>split_at k c w (hi, lo)\<close> takes at most \<open>c\<close> units of \<open>k\<close> days
  out of the \<open>lo\<close> days that are left, and counts them in \<open>hi\<close>, which has \<open>w\<close>
  such units to one of its own.
\<close>

definition split_at :: "int \<Rightarrow> int \<Rightarrow> int \<Rightarrow> int \<times> int \<Rightarrow> int \<times> int" where
  "split_at k c w p = (let s = min c (snd p div k) in (fst p * w + s, snd p - k * s))"

definition year_and_day :: "int \<Rightarrow> int \<times> int" where
  "year_and_day z =
     split_at 365 3 4 (split_at 1461 24 25 (split_at 36524 3 4 (z div 146097, z mod 146097)))"

definition month_and_day :: "int \<Rightarrow> int \<times> int" where
  "month_and_day doy = (let mp = (5 * doy + 2) div 153 in (mp, doy - (153 * mp + 2) div 5 + 1))"

definition civil_from_days :: "int \<Rightarrow> int \<times> int \<times> int" where
  "civil_from_days days =
     (let (y, doy) = year_and_day (days + 719468);
          (mp, d) = month_and_day doy;
          m = (if mp < 10 then mp + 3 else mp - 9)
      in (if m \<le> 2 then y + 1 else y, m, d))"

definition broken_down :: "int \<Rightarrow> tm" where
  "broken_down t =
     (let days = t div 86400; secs = t mod 86400;
          (y, m, d) = civil_from_days days
      in \<lparr>tm_sec = secs mod 60, tm_min = secs mod 3600 div 60, tm_hour = secs div 3600,
          tm_mday = d, tm_mon = m - 1, tm_year = y - 1900\<rparr>)"

text \<open>
  \<^verbatim>\<open>localtime\<close> returns a null pointer (\<^verbatim>\<open>EOVERFLOW\<close>) when the year does not
  fit the \<^verbatim>\<open>int\<close> member \<^verbatim>\<open>tm_year\<close>.
\<close>

definition localtime :: "(int \<Rightarrow> int) \<Rightarrow> int \<Rightarrow> tm option" where
  "localtime offset t =
     (let ts = broken_down (t + offset t)
      in if - (2 ^ 31) \<le> tm_year ts \<and> tm_year ts < 2 ^ 31 then Some ts else None)"




definition tm_valid :: "tm \<Rightarrow> bool" where
  "tm_valid a =
     (0 \<le> tm_sec a \<and> tm_sec a < 60 \<and> 0 \<le> tm_min a \<and> tm_min a < 60 \<and>
      0 \<le> tm_hour a \<and> tm_hour a < 24 \<and> 1 \<le> tm_mday a \<and> tm_mday a \<le> 31 \<and>
      0 \<le> tm_mon a \<and> tm_mon a < 12)"

subsection \<open>\<^verbatim>\<open>strftime\<close>\<close>

definition show_int :: "int \<Rightarrow> string" where
  "show_int i = (if i < 0 then ''-'' @ dec (nat (- i)) else dec (nat i))"

definition pad2 :: "int \<Rightarrow> string" where
  "pad2 i = (if 0 \<le> i \<and> i < 10 then ''0'' @ show_int i else show_int i)"

text \<open>
  \<^verbatim>\<open>%Y\<close> prints \<^verbatim>\<open>tm_year + 1900\<close>, a sum the C library takes in \<^verbatim>\<open>int\<close>, 32
  bits wide: it wraps for a \<^verbatim>\<open>tm_year\<close> above \<^verbatim>\<open>INT_MAX - 1900\<close>, which
  \<^verbatim>\<open>localtime\<close> can return.
\<close>

definition wrap_int :: "int \<Rightarrow> int" where
  "wrap_int i = (i + 2 ^ 31) mod 2 ^ 32 - 2 ^ 31"

definition year_number :: "tm \<Rightarrow> int" where
  "year_number ts = wrap_int (tm_year ts + 1900)"

text \<open>
  The conversions of the two format strings in question; \<^verbatim>\<open>%F\<close> and \<^verbatim>\<open>%T\<close>
  are defined by the C standard as \<^verbatim>\<open>%Y-%m-%d\<close> and \<^verbatim>\<open>%H:%M:%S\<close>. Any other
  conversion is copied as it stands.
\<close>

definition conversion :: "char \<Rightarrow> tm \<Rightarrow> string" where
  "conversion c ts =
     (if c = CHR ''Y'' then show_int (year_number ts)
      else if c = CHR ''m'' then pad2 (tm_mon ts + 1)
      else if c = CHR ''d'' then pad2 (tm_mday ts)
      else if c = CHR ''H'' then pad2 (tm_hour ts)
      else if c = CHR ''M'' then pad2 (tm_min ts)
      else if c = CHR ''S'' then pad2 (tm_sec ts)
      else if c = CHR ''F'' then
        show_int (year_number ts) @ ''-'' @ pad2 (tm_mon ts + 1) @ ''-'' @ pad2 (tm_mday ts)
      else if c = CHR ''T'' then
        pad2 (tm_hour ts) @ '':'' @ pad2 (tm_min ts) @ '':'' @ pad2 (tm_sec ts)
      else [CHR ''%'', c])"

fun expand :: "string \<Rightarrow> tm \<Rightarrow> string" where
  "expand [] ts = []"
| "expand [c] ts = [c]"
| "expand (c # d # rest) ts =
     (if c = CHR ''%'' then conversion d ts @ expand rest ts else c # expand (d # rest) ts)"

text \<open>
  \<^verbatim>\<open>strftime (s, maxsize, format, tm)\<close> leaves the text and its terminator in the
  array when they fit \<open>maxsize\<close> bytes; otherwise it returns 0 and the contents of
  the array are unspecified (\<open>None\<close>).
\<close>

definition strftime :: "nat \<Rightarrow> string \<Rightarrow> tm \<Rightarrow> string option" where
  "strftime maxsize format ts =
     (let s = expand format ts in if length s + 1 \<le> maxsize then Some s else None)"

subsection \<open>\<^verbatim>\<open>getClockInfo\<close>\<close>

record ClockInfo =
  BootDatetime :: string
  CurrentDatetime :: string

text \<open>
  A \<^verbatim>\<open>std::runtime_error\<close> with its message, or the read of an array that
  \<^verbatim>\<open>strftime\<close> left unspecified (the code does not look at what \<^verbatim>\<open>strftime\<close>
  returns, and the arrays are not initialised).
\<close>

datatype failure = runtime_error string | unspecified_read

definition getClockInfo :: "host \<Rightarrow> failure + ClockInfo" where
  "getClockInfo host =
     (let now = clock host in
      case localtime (utc_offset host) (sint now) of
        None \<Rightarrow> Inl (runtime_error ''Failed to get current datetime.'')
      | Some ts \<Rightarrow>
          (let current_datetime = strftime 256 ''%FT%TZ'' ts in
           if sysinfo_ret host \<noteq> 0 then Inl (runtime_error ''Failed to get system uptime.'')
           else
             (let uptime_seconds = uptime host;
                  diff = now - uptime_seconds
              in case localtime (utc_offset host) (sint diff) of
                   None \<Rightarrow> Inl (runtime_error ''Failed to get boot datetime.'')
                 | Some ts' \<Rightarrow>
                     (let boot_datetime = strftime 256 ''%FT%TZ'' ts' in
                      case (boot_datetime, current_datetime) of
                        (Some b, Some c) \<Rightarrow> Inr \<lparr>BootDatetime = b, CurrentDatetime = c\<rparr>
                      | _ \<Rightarrow> Inl unspecified_read))))"

section \<open>Properties of the address value\<close>

subsection \<open>Auxiliary facts\<close>

lemma store_fits:
  "length bs \<le> length buf \<Longrightarrow> store buf bs = Some (bs @ drop (length bs) buf)"
  by (simp add: store_def)

lemma store_frame:
  assumes "store buf bs = Some buf'" and "length bs \<le> n"
  shows "length buf' = length buf \<and> drop n buf' = drop n buf"
  using assms by (auto simp: store_def split: if_splits)

lemma copy_out_fits:
  assumes "length txt < n" and "length txt < length dst"
  shows "copy_out txt dst n = Some (NTOP_DST (txt @ [NUL] @ drop (Suc (length txt)) dst))"
  using assms by (simp add: copy_out_def store_def)

lemma copy_out_frame:
  assumes "copy_out txt dst n = Some (NTOP_DST dst')"
  shows "length dst' = length dst \<and> drop n dst' = drop n dst"
proof -
  from assms have fits: "length (txt @ [NUL]) \<le> n" and "store dst (txt @ [NUL]) = Some dst'"
    by (auto simp: copy_out_def split: if_splits)
  then show ?thesis by (intro store_frame)
qed

lemma dotted_quad_loopback: "dotted_quad [127, 0, 0, 1] = ''127.0.0.1''"
  by (simp add: dec.simps digit_def)

text \<open>
  Neither build stores a byte at or behind index \<open>buffer_size\<close>, and the build
  with \<^verbatim>\<open>SYSTEMD\<close> answers -1 and stores nothing when the text and its
  terminator exceed the capacity.
\<close>

lemma to_str_systemd_in_bounds:
  assumes "system_ip_address_to_str_systemd address buffer buffer_size = Some (r, b)"
  shows "length b = length buffer \<and> drop buffer_size b = drop buffer_size buffer"
  using assms copy_out_frame [of _ buffer buffer_size]
  by (auto simp: system_ip_address_to_str_systemd_def inet_ntop_def inet_ntop4_def
      inet_ntop6_def split: if_splits option.splits ntop.splits)

lemma to_str_plain_in_bounds:
  assumes "system_ip_address_to_str_plain h address buffer buffer_size = Some (r, b)"
  shows "length b = length buffer \<and> drop buffer_size b = drop buffer_size buffer"
proof -
  from assms obtain s k where "snprintf_s buffer buffer_size s = Some (k, b)"
    by (auto simp: system_ip_address_to_str_plain_def split: option.splits)
  then show ?thesis
    using store_frame [of buffer "take (buffer_size - 1) s @ [NUL]" b buffer_size]
    by (auto simp: snprintf_s_def Let_def split: if_splits)
qed

lemma to_str_systemd_ipv4_small_buffer:
  assumes "family address = AF_INET"
    and "buffer_size < length (dotted_quad (v4 address)) + 1"
  shows "system_ip_address_to_str_systemd address buffer buffer_size = Some (-1, buffer)"
  using assms
  by (simp add: system_ip_address_to_str_systemd_def inet_ntop_def inet_ntop4_def copy_out_def)

lemma to_str_systemd_ipv6_never_succeeds:
  assumes "family address = AF_INET6"
  shows "system_ip_address_to_str_systemd address buffer buffer_size \<noteq> Some (0, b)"
  using assms
  by (auto simp: system_ip_address_to_str_systemd_def AF_INET_def AF_INET6_def
      split: option.splits ntop.splits)

lemma to_str_plain_cut_text:
  assumes "val address \<noteq> 0" and "blocks h (val address) = Some s" and "s \<noteq> []"
    and "int (length s) \<le> INT_MAX"
    and "0 < buffer_size" and "buffer_size \<le> length buffer"
  shows "system_ip_address_to_str_plain h address buffer buffer_size =
           Some (0, take (buffer_size - 1) s @ [NUL] @
                    drop (Suc (min (length s) (buffer_size - 1))) buffer)"
  using assms
  by (simp add: system_ip_address_to_str_plain_def string_arg_def snprintf_s_def store_def
      Let_def)

lemma to_str_plain_long_text:
  assumes "val address \<noteq> 0" and "blocks h (val address) = Some s"
    and "int (length s) > INT_MAX"
    and "0 < buffer_size" and "buffer_size \<le> length buffer"
  shows "system_ip_address_to_str_plain h address buffer buffer_size =
           Some (-1, take (buffer_size - 1) s @ [NUL] @
                     drop (Suc (min (length s) (buffer_size - 1))) buffer)"
  using assms
  by (simp add: system_ip_address_to_str_plain_def string_arg_def snprintf_s_def store_def
      Let_def)

lemma to_str_plain_empty_text:
  assumes "val address \<noteq> 0" and "blocks h (val address) = Some []"
  shows "system_ip_address_to_str_plain h address buffer buffer_size =
           (if buffer_size = 0 then Some (-1, buffer)
            else map_option (Pair (-1)) (store buffer [NUL]))"
  using assms
  by (cases "store buffer [NUL]")
    (simp_all add: system_ip_address_to_str_plain_def string_arg_def snprintf_s_def Let_def
      INT_MAX_def)

lemma to_str_plain_null:
  assumes "val address = 0" and "7 \<le> buffer_size" and "7 \<le> length buffer"
  shows "system_ip_address_to_str_plain h address buffer buffer_size =
           Some (0, ''(null)'' @ [NUL] @ drop 7 buffer)"
proof -
  have "take (buffer_size - 1) ''(null)'' = ''(null)''"
    using assms(2) by simp
  then have "snprintf_s buffer buffer_size ''(null)'' =
          Some (6, ''(null)'' @ [NUL] @ drop 7 buffer)"
    using assms(2,3) by (simp add: snprintf_s_def store_def INT_MAX_def eval_nat_numeral)
  then show ?thesis
    by (simp add: system_ip_address_to_str_plain_def string_arg_def assms(1))
qed

lemma init_then_to_str_systemd:
  "system_ip_address_to_str_systemd (system_ip_address_init_systemd address) buffer buffer_size =
     Some (-1, buffer)"
  by (simp add: system_ip_address_to_str_systemd_def system_ip_address_init_systemd_def
      AF_INET_def AF_INET6_def)

subsection \<open>The claims\<close>

text \<open>
  C1. For an IPv6 value and a buffer large enough, \<^verbatim>\<open>system_ip_address_to_str\<close>
  is to write the colon-hex text and return 0; for the all-zero value that text
  is \<^verbatim>\<open>::\<close>. The code writes the text but returns -1: on the all-zero value
  with a buffer of 46 bytes, the array holds \<^verbatim>\<open>::\<close> and the result is -1.
\<close>

theorem to_str_ipv6_all_zero:
  "system_ip_address_to_str_systemd \<lparr>family = AF_INET6, val = replicate 16 0\<rparr>
     (replicate 46 CHR ''x'') 46 =
   Some (-1, ''::'' @ [NUL] @ replicate 43 CHR ''x'')"
  by code_simp

text \<open>
  C2. With a capacity smaller than the text, \<^verbatim>\<open>system_ip_address_to_str\<close> is to
  return -1 and to store nothing behind the capacity. In the build without
  \<^verbatim>\<open>SYSTEMD\<close> the text \<^verbatim>\<open>10.0.0.1\<close> with capacity 4 is cut to \<^verbatim>\<open>10.\<close> and
  the result is 0; the bytes from index 4 on are untouched.
\<close>

theorem to_str_plain_small_buffer:
  "system_ip_address_to_str_plain \<lparr>blocks = [1 \<mapsto> ''10.0.0.1''], freed = []\<rparr>
     \<lparr>family = 2, val = 1\<rparr> (replicate 12 CHR ''x'') 4 =
   Some (0, ''10.'' @ [NUL] @ replicate 8 CHR ''x'')"
  by code_simp

text \<open>
  C3. \<^verbatim>\<open>system_ip_address_init\<close> followed by \<^verbatim>\<open>system_ip_address_to_str\<close> is
  to give -1 in the build with \<^verbatim>\<open>SYSTEMD\<close>, and 0 with the empty string in the
  build without. The first half holds for every buffer and capacity. In the
  build without \<^verbatim>\<open>SYSTEMD\<close> the initialised value holds a null pointer, and
  \<^verbatim>\<open>system_ip_address_to_str\<close> hands it to \<^verbatim>\<open>snprintf\<close> without the test
  that \<^verbatim>\<open>system_ip_address_free\<close> makes: with a buffer of eight bytes the
  result is 0, but the buffer holds the text \<^verbatim>\<open>(null)\<close>, not the empty string.
\<close>

theorem init_then_to_str_plain:
  "system_ip_address_to_str_plain \<lparr>blocks = Map.empty, freed = []\<rparr>
     (system_ip_address_init_plain \<lparr>family = 2, val = 0\<rparr>) (replicate 8 CHR ''x'') 8 =
     Some (0, ''(null)'' @ [NUL] @ ''x'') \<and>
   c_str (''(null)'' @ [NUL] @ ''x'') = ''(null)''"
  by code_simp

text \<open>
  C4. \<^verbatim>\<open>system_ip_address_free\<close> is idempotent. In the build with \<^verbatim>\<open>SYSTEMD\<close>
  it is \<^verbatim>\<open>system_ip_address_init\<close>. In the build without, for a value that
  owns its text (the pointer is null or points to a live block), the first call
  succeeds, hands the block back once (not at all for a null pointer) and leaves
  the initialised value; the second call succeeds too, changes neither the heap
  nor the log of freed blocks, and leaves the initialised value again.
\<close>

theorem release_idempotent:
  "system_ip_address_free_systemd address = system_ip_address_init_systemd address \<and>
   system_ip_address_free_systemd (system_ip_address_free_systemd address) =
     system_ip_address_init_systemd address \<and>
   (val owner = 0 \<or> blocks h (val owner) \<noteq> None \<longrightarrow>
     (\<exists>h'. system_ip_address_free_plain h owner = Some (h', system_ip_address_init_plain owner) \<and>
           system_ip_address_free_plain h' (system_ip_address_init_plain owner) =
             Some (h', system_ip_address_init_plain owner) \<and>
           freed h' = freed h @ (if val owner = 0 then [] else [val owner])))"
  by (auto simp: system_ip_address_free_systemd_def system_ip_address_init_systemd_def
      system_ip_address_free_plain_def system_ip_address_init_plain_def c_free_def)

theorem release_idempotent_witness:
  "system_ip_address_free_systemd \<lparr>family = 2, val = [127, 0, 0, 1] @ replicate 12 0\<rparr> =
     \<lparr>family = 0, val = replicate 16 0\<rparr> \<and>
   (\<exists>h'. system_ip_address_free_plain \<lparr>blocks = [7 \<mapsto> ''10.0.0.1''], freed = []\<rparr>
            \<lparr>family = 2, val = 7\<rparr> = Some (h', \<lparr>family = 0, val = 0\<rparr>) \<and>
         system_ip_address_free_plain h' \<lparr>family = 0, val = 0\<rparr> =
           Some (h', \<lparr>family = 0, val = 0\<rparr>) \<and>
         freed h' = [7])"
  using release_idempotent [of "\<lparr>family = 2, val = [127, 0, 0, 1] @ replicate 12 0\<rparr>"
      "\<lparr>family = 2, val = 7\<rparr>" "\<lparr>blocks = [7 \<mapsto> ''10.0.0.1''], freed = []\<rparr>"]
  by (simp add: system_ip_address_init_systemd_def system_ip_address_init_plain_def)

text \<open>
  C7. In the build without \<^verbatim>\<open>SYSTEMD\<close>, a value whose text is \<^verbatim>\<open>10.0.0.1\<close>
  and a buffer of at least nine bytes, with a capacity of at least nine: the
  result is 0 and the buffer starts with \<^verbatim>\<open>10.0.0.1\<close> and its terminator,
  whatever the family \<open>f\<close> of the value.
\<close>

theorem to_str_plain_text:
  assumes ptr: "val address \<noteq> 0" and blk: "blocks h (val address) = Some ''10.0.0.1''"
    and cap: "9 \<le> buffer_size" and arr: "9 \<le> length buffer"
  shows "system_ip_address_to_str_plain h (address\<lparr>family := f\<rparr>) buffer buffer_size =
           Some (0, ''10.0.0.1'' @ [NUL] @ drop 9 buffer)"
proof -
  have arg: "string_arg h (val address) = Some ''10.0.0.1''"
    using ptr blk by (simp add: string_arg_def)
  have "take (buffer_size - 1) ''10.0.0.1'' = ''10.0.0.1''"
    using cap by simp
  then have "snprintf_s buffer buffer_size ''10.0.0.1'' =
          Some (8, ''10.0.0.1'' @ [NUL] @ drop 9 buffer)"
    using cap arr by (simp add: snprintf_s_def store_def INT_MAX_def eval_nat_numeral)
  then show ?thesis
    by (simp add: system_ip_address_to_str_plain_def arg)
qed

theorem to_str_plain_text_witness:
  "system_ip_address_to_str_plain \<lparr>blocks = [1 \<mapsto> ''10.0.0.1''], freed = []\<rparr>
     \<lparr>family = 10, val = 1\<rparr> (replicate 12 CHR ''x'') 12 =
   Some (0, ''10.0.0.1'' @ [NUL] @ replicate 3 CHR ''x'')"
  using to_str_plain_text [of "\<lparr>family = 0, val = 1\<rparr>"
      "\<lparr>blocks = [1 \<mapsto> ''10.0.0.1''], freed = []\<rparr>" 12 "replicate 12 CHR ''x''" 10]
  by simp

text \<open>
  C8. In the build with \<^verbatim>\<open>SYSTEMD\<close>, family \<^verbatim>\<open>AF_INET\<close> and the four bytes
  127, 0, 0, 1 (whatever the other bytes of the union), with a buffer and a
  capacity of at least ten bytes: the result is 0 and the buffer starts with
  \<^verbatim>\<open>127.0.0.1\<close> and its terminator.
\<close>

theorem to_str_ipv4_loopback:
  assumes fam: "family address = AF_INET" and bytes: "take 4 (val address) = [127, 0, 0, 1]"
    and cap: "10 \<le> buffer_size" and arr: "10 \<le> length buffer"
  shows "system_ip_address_to_str_systemd address buffer buffer_size =
           Some (0, ''127.0.0.1'' @ [NUL] @ drop 10 buffer)"
proof -
  have txt_eq: "dotted_quad (v4 address) = ''127.0.0.1''"
    unfolding v4_def bytes by (rule dotted_quad_loopback)
  have "copy_out ''127.0.0.1'' buffer buffer_size =
          Some (NTOP_DST (''127.0.0.1'' @ [NUL] @ drop (Suc (length ''127.0.0.1'')) buffer))"
    using cap arr by (intro copy_out_fits) simp_all
  then have "inet_ntop AF_INET (v4 address) buffer buffer_size =
          Some (NTOP_DST (''127.0.0.1'' @ [NUL] @ drop 10 buffer))"
    by (simp add: inet_ntop_def inet_ntop4_def txt_eq eval_nat_numeral)
  then show ?thesis
    by (simp add: system_ip_address_to_str_systemd_def fam)
qed

theorem to_str_ipv4_loopback_witness:
  "system_ip_address_to_str_systemd \<lparr>family = 2, val = [127, 0, 0, 1] @ replicate 12 0\<rparr>
     (replicate 16 CHR ''x'') 16 =
   Some (0, ''127.0.0.1'' @ [NUL] @ replicate 6 CHR ''x'')"
  using to_str_ipv4_loopback [of "\<lparr>family = 2, val = [127, 0, 0, 1] @ replicate 12 0\<rparr>" 16
      "replicate 16 CHR ''x''"]
  by (simp add: AF_INET_def)

text \<open>
  C10. In the build with \<^verbatim>\<open>SYSTEMD\<close>, a family other than \<^verbatim>\<open>AF_INET\<close> and
  \<^verbatim>\<open>AF_INET6\<close> gives -1 and leaves every byte of the buffer as it was.
\<close>

theorem to_str_other_family:
  assumes "family address \<noteq> AF_INET" and "family address \<noteq> AF_INET6"
  shows "system_ip_address_to_str_systemd address buffer buffer_size = Some (-1, buffer)"
  using assms by (simp add: system_ip_address_to_str_systemd_def)

theorem to_str_other_family_witness:
  "system_ip_address_to_str_systemd \<lparr>family = 17, val = [127, 0, 0, 1] @ replicate 12 0\<rparr>
     ''xxxx'' 4 = Some (-1, ''xxxx'')"
  using to_str_other_family [of "\<lparr>family = 17, val = [127, 0, 0, 1] @ replicate 12 0\<rparr>"
      "''xxxx''" 4]
  by (simp add: AF_INET_def AF_INET6_def)

section \<open>Properties of the host clock\<close>

subsection \<open>The calendar is strictly monotone\<close>

lemma split_at_nonneg:
  assumes "0 < k" and "0 \<le> c" and "0 \<le> snd p"
  shows "0 \<le> snd (split_at k c w p)"
proof -
  have "k * min c (snd p div k) \<le> k * (snd p div k)"
    using assms by (intro mult_left_mono) simp_all
  also have "\<dots> \<le> snd p"
    using assms mult_div_mod_eq [of k "snd p"] pos_mod_sign [of k "snd p"] by linarith
  finally show ?thesis by (simp add: split_at_def Let_def)
qed

lemma split_at_upper:
  assumes "0 < k" and "0 \<le> snd p" and "snd p \<le> b"
  shows "snd (split_at k c w p) \<le> max (k - 1) (b - k * c)"
proof (cases "snd p div k \<le> c")
  case True
  then have "snd (split_at k c w p) = snd p mod k"
    by (simp add: split_at_def Let_def min_def minus_mult_div_eq_mod)
  moreover have "snd p mod k < k" using assms by simp
  ultimately show ?thesis by simp
next
  case False
  then have "snd (split_at k c w p) = snd p - k * c"
    by (simp add: split_at_def Let_def min_def)
  then show ?thesis using assms by simp
qed





lemma time_of_day_range:
  fixes t :: int
  defines "secs \<equiv> t mod 86400"
  shows "0 \<le> secs mod 60 \<and> secs mod 60 < 60 \<and> 0 \<le> secs mod 3600 div 60 \<and>
         secs mod 3600 div 60 < 60 \<and> 0 \<le> secs div 3600 \<and> secs div 3600 < 24"
proof -
  have "0 \<le> secs" "secs \<le> 86399" by (simp_all add: secs_def)
  then have "0 \<le> secs div 3600" "secs div 3600 \<le> 86399 div 3600"
    by (simp_all add: pos_imp_zdiv_nonneg_iff zdiv_mono1)
  moreover have "0 \<le> secs mod 3600" "secs mod 3600 \<le> 3599" by simp_all
  then have "0 \<le> secs mod 3600 div 60" "secs mod 3600 div 60 \<le> 3599 div 60"
    by (simp_all add: pos_imp_zdiv_nonneg_iff zdiv_mono1)
  ultimately show ?thesis by simp
qed

lemma year_and_day_range: "0 \<le> snd (year_and_day z) \<and> snd (year_and_day z) \<le> 365"
proof -
  let ?e = "(z div 146097, z mod 146097)"
  let ?c = "split_at 36524 3 4 ?e"
  let ?q = "split_at 1461 24 25 ?c"
  have e: "0 \<le> snd ?e" "snd ?e \<le> 146096" by simp_all
  have c0: "0 \<le> snd ?c" by (intro split_at_nonneg) simp_all
  have "snd ?c \<le> max (36524 - 1) (146096 - 36524 * 3)" by (intro split_at_upper e) simp
  then have c1: "snd ?c \<le> 36524" by simp
  have q0: "0 \<le> snd ?q" by (intro split_at_nonneg c0) simp_all
  have "snd ?q \<le> max (1461 - 1) (36524 - 1461 * 24)" by (intro split_at_upper c0 c1) simp
  then have q1: "snd ?q \<le> 1460" by simp
  have "0 \<le> snd (split_at 365 3 4 ?q)" by (intro split_at_nonneg q0) simp_all
  moreover have "snd (split_at 365 3 4 ?q) \<le> max (365 - 1) (1460 - 365 * 3)"
    by (intro split_at_upper q0 q1) simp
  ultimately show ?thesis by (simp add: year_and_day_def)
qed


lemma month_and_day_range:
  assumes "0 \<le> doy" and "doy \<le> 365"
  shows "0 \<le> fst (month_and_day doy) \<and> fst (month_and_day doy) \<le> 11 \<and>
         1 \<le> snd (month_and_day doy) \<and> snd (month_and_day doy) \<le> 31"
proof -
  define mp where "mp = (5 * doy + 2) div 153"
  have lo: "153 * mp \<le> 5 * doy + 2" and hi: "5 * doy + 2 < 153 * mp + 153"
    using div_mult_mod_eq [of "5 * doy + 2" 153]
      pos_mod_bound [of 153 "5 * doy + 2"] pos_mod_sign [of 153 "5 * doy + 2"]
    by (simp_all add: mp_def)
  have mp: "0 \<le> mp" "mp \<le> 11" using lo hi assms by simp_all
  then have "mp = 0 \<or> mp = 1 \<or> mp = 2 \<or> mp = 3 \<or> mp = 4 \<or> mp = 5 \<or> mp = 6 \<or>
      mp = 7 \<or> mp = 8 \<or> mp = 9 \<or> mp = 10 \<or> mp = 11" by presburger
  then have "1 \<le> doy - (153 * mp + 2) div 5 + 1 \<and> doy - (153 * mp + 2) div 5 + 1 \<le> 31"
    using lo hi assms by (elim disjE) simp_all
  then show ?thesis using mp by (simp add: month_and_day_def Let_def mp_def)
qed




lemma civil_from_days_range:
  "1 \<le> fst (snd (civil_from_days a)) \<and> fst (snd (civil_from_days a)) \<le> 12 \<and>
   1 \<le> snd (snd (civil_from_days a)) \<and> snd (snd (civil_from_days a)) \<le> 31"
proof -
  obtain ya da where A: "year_and_day (a + 719468) = (ya, da)" by (cases "year_and_day (a + 719468)")
  obtain ma ea where MA: "month_and_day da = (ma, ea)" by (cases "month_and_day da")
  have "0 \<le> da \<and> da \<le> 365" using year_and_day_range [of "a + 719468"] A by simp
  then have "0 \<le> ma \<and> ma \<le> 11 \<and> 1 \<le> ea \<and> ea \<le> 31"
    using month_and_day_range [of da] MA by simp
  then show ?thesis by (auto simp: civil_from_days_def A MA)
qed


lemma broken_down_fields:
  "tm_year (broken_down t) = fst (civil_from_days (t div 86400)) - 1900"
  "tm_mon (broken_down t) = fst (snd (civil_from_days (t div 86400))) - 1"
  "tm_mday (broken_down t) = snd (snd (civil_from_days (t div 86400)))"
  "tm_hour (broken_down t) = t mod 86400 div 3600"
  "tm_min (broken_down t) = t mod 86400 mod 3600 div 60"
  "tm_sec (broken_down t) = t mod 86400 mod 60"
  by (simp_all add: broken_down_def Let_def case_prod_unfold)

lemma broken_down_valid: "tm_valid (broken_down t)"
  unfolding tm_valid_def broken_down_fields
  using civil_from_days_range [of "t div 86400"] time_of_day_range [of t]
  by simp




subsection \<open>The text of a date is ordered as the date\<close>


lemma digit_0: "digit 0 = CHR ''0''"
  by (simp add: digit_def)




lemma length_dec_div:
  assumes "10 \<le> n"
  shows "length (dec n) = Suc (length (dec (n div 10)))"
  using assms by (subst dec.simps) simp



lemma pad2_digits:
  assumes "0 \<le> i" and "i < 100"
  shows "pad2 i = [digit (nat i div 10), digit (nat i mod 10)]"
proof (cases "i < 10")
  case True
  then have "nat i < 10" "nat i div 10 = 0" "nat i mod 10 = nat i" using assms by simp_all
  then show ?thesis
    using True assms by (simp add: pad2_def show_int_def dec.simps [of "nat i"] dec.simps [of 0] digit_0)
next
  case False
  then have "10 \<le> nat i" "nat i div 10 < 10" using assms by simp_all
  then show ?thesis
    using False assms
    by (simp add: pad2_def show_int_def dec.simps [of "nat i"] dec.simps [of "nat i div 10"])
qed




lemma wrap_int_range: "- (2 ^ 31) \<le> wrap_int i \<and> wrap_int i < 2 ^ 31"
proof -
  have "0 \<le> (i + 2 ^ 31) mod 2 ^ 32" "(i + 2 ^ 31) mod 2 ^ 32 < 2 ^ 32"
    by simp_all
  then show ?thesis by (simp add: wrap_int_def)
qed


lemma expand_datetime:
  "expand ''%FT%TZ'' ts =
     show_int (year_number ts) @ CHR ''-'' # pad2 (tm_mon ts + 1) @ CHR ''-'' #
     pad2 (tm_mday ts) @ CHR ''T'' # pad2 (tm_hour ts) @ CHR '':'' # pad2 (tm_min ts) @ CHR '':'' #
     pad2 (tm_sec ts) @ ''Z''"
  by (simp add: conversion_def)

lemma expand_long_format:
  "expand ''%Y-%m-%dT%H:%M:%SZ'' ts = expand ''%FT%TZ'' ts"
  by (simp add: conversion_def)


subsection \<open>What \<^verbatim>\<open>getClockInfo\<close> returns\<close>

lemma length_dec_bound:
  assumes "n < 10 ^ k" and "0 < k"
  shows "length (dec n) \<le> k"
  using assms
proof (induction n arbitrary: k rule: dec.induct)
  case (1 n)
  show ?case
  proof (cases "n < 10")
    case True
    then show ?thesis using "1.prems" by (subst dec.simps) simp
  next
    case False
    obtain j where k: "k = Suc j" using "1.prems"(2) by (cases k) simp_all
    have "0 < j"
    proof (rule ccontr)
      assume "\<not> 0 < j"
      then show False using k "1.prems"(1) False by simp
    qed
    moreover have "n div 10 < 10 ^ j"
      using "1.prems"(1) k by (simp add: div_less_iff_less_mult mult.commute)
    ultimately have "length (dec (n div 10)) \<le> j" using "1.IH" [OF False] by simp
    then show ?thesis using False k by (simp add: length_dec_div)
  qed
qed

lemma length_show_int:
  assumes "- (10 ^ 10) < i" and "i < 10 ^ 10"
  shows "length (show_int i) \<le> 11"
proof -
  have "length (dec (nat \<bar>i\<bar>)) \<le> 10"
    using assms by (intro length_dec_bound) (simp_all add: nat_less_iff)
  then show ?thesis by (auto simp: show_int_def abs_if split: if_splits)
qed

lemma length_expand_datetime:
  assumes "tm_valid ts" and "- (2 ^ 31) \<le> tm_year ts" and "tm_year ts < 2 ^ 31"
  shows "length (expand ''%FT%TZ'' ts) \<le> 27"
proof -
  have "length (show_int (year_number ts)) \<le> 11"
    using wrap_int_range [of "tm_year ts + 1900"] unfolding year_number_def
    by (intro length_show_int) simp_all
  moreover have "length (pad2 (tm_mon ts + 1)) = 2" "length (pad2 (tm_mday ts)) = 2"
    "length (pad2 (tm_hour ts)) = 2" "length (pad2 (tm_min ts)) = 2" "length (pad2 (tm_sec ts)) = 2"
    using assms(1) by (simp_all add: tm_valid_def pad2_digits)
  ultimately show ?thesis unfolding expand_datetime by simp
qed

lemma localtime_Some:
  assumes "localtime offset t = Some ts"
  shows "ts = broken_down (t + offset t)" and "tm_valid ts"
    and "- (2 ^ 31) \<le> tm_year ts" and "tm_year ts < 2 ^ 31"
  using assms broken_down_valid [of "t + offset t"]
  by (auto simp: localtime_def Let_def split: if_splits)

lemma strftime_fits:
  assumes "localtime offset t = Some ts"
  shows "strftime 256 ''%FT%TZ'' ts = Some (expand ''%FT%TZ'' ts)"
  using length_expand_datetime [OF localtime_Some(2-4) [OF assms]]
  by (simp add: strftime_def Let_def)

lemma getClockInfo_cases:
  "getClockInfo host =
     (case localtime (utc_offset host) (sint (clock host)) of
        None \<Rightarrow> Inl (runtime_error ''Failed to get current datetime.'')
      | Some now \<Rightarrow>
          if sysinfo_ret host \<noteq> 0 then Inl (runtime_error ''Failed to get system uptime.'')
          else
            (case localtime (utc_offset host) (sint (clock host - uptime host)) of
               None \<Rightarrow> Inl (runtime_error ''Failed to get boot datetime.'')
             | Some boot \<Rightarrow>
                 Inr \<lparr>BootDatetime = expand ''%FT%TZ'' boot,
                      CurrentDatetime = expand ''%FT%TZ'' now\<rparr>))"
  by (simp add: getClockInfo_def Let_def strftime_fits split: option.splits)


text \<open>
  Three runs, evaluated: a zone with a fixed offset, the year 10000, and the last
  second that \<^verbatim>\<open>localtime\<close> converts, where \<^verbatim>\<open>tm_year\<close> is \<^verbatim>\<open>INT_MAX\<close> and the
  year \<^verbatim>\<open>%Y\<close> prints has wrapped.
\<close>

lemma localtime_fixed_offset:
  "localtime (\<lambda>t. 3600) 1698541800 =
     Some \<lparr>tm_sec = 0, tm_min = 10, tm_hour = 2, tm_mday = 29, tm_mon = 9, tm_year = 123\<rparr>"
  "localtime (\<lambda>t. 3600) 1698539400 =
     Some \<lparr>tm_sec = 0, tm_min = 30, tm_hour = 1, tm_mday = 29, tm_mon = 9, tm_year = 123\<rparr>"
  by code_simp+

lemma getClockInfo_fixed_offset:
  "getClockInfo \<lparr>clock = 1698541800, utc_offset = (\<lambda>t. 3600), sysinfo_ret = 0, uptime = 2400\<rparr> =
     Inr \<lparr>BootDatetime = ''2023-10-29T01:30:00Z'', CurrentDatetime = ''2023-10-29T02:10:00Z''\<rparr>"
  by (simp add: getClockInfo_cases localtime_fixed_offset conversion_def year_number_def
      wrap_int_def show_int_def pad2_def dec.simps digit_def)

lemma getClockInfo_year_10000:
  "getClockInfo \<lparr>clock = 253402300800, utc_offset = (\<lambda>t. 0), sysinfo_ret = 0, uptime = 1\<rparr> =
     Inr \<lparr>BootDatetime = ''9999-12-31T23:59:59Z'', CurrentDatetime = ''10000-01-01T00:00:00Z''\<rparr> \<and>
   \<not> ''9999-12-31T23:59:59Z'' \<le> ''10000-01-01T00:00:00Z''"
proof -
  have now: "localtime (\<lambda>t. 0) 253402300800 =
      Some \<lparr>tm_sec = 0, tm_min = 0, tm_hour = 0, tm_mday = 1, tm_mon = 0, tm_year = 8100\<rparr>"
    by code_simp
  have boot: "localtime (\<lambda>t. 0) 253402300799 =
      Some \<lparr>tm_sec = 59, tm_min = 59, tm_hour = 23, tm_mday = 31, tm_mon = 11, tm_year = 8099\<rparr>"
    by code_simp
  show ?thesis
    by (simp add: getClockInfo_cases now boot conversion_def year_number_def
        wrap_int_def show_int_def pad2_def dec.simps digit_def)
qed

lemma getClockInfo_year_wraps:
  "getClockInfo \<lparr>clock = 67768036191676799, utc_offset = (\<lambda>t. 0), sysinfo_ret = 0, uptime = 0\<rparr> =
     Inr \<lparr>BootDatetime = ''-2147481749-12-31T23:59:59Z'',
          CurrentDatetime = ''-2147481749-12-31T23:59:59Z''\<rparr>"
proof -
  have now: "localtime (\<lambda>t. 0) 67768036191676799 =
      Some \<lparr>tm_sec = 59, tm_min = 59, tm_hour = 23, tm_mday = 31, tm_mon = 11,
            tm_year = 2147483647\<rparr>"
    by code_simp
  show ?thesis
    by (simp add: getClockInfo_cases now conversion_def year_number_def
        wrap_int_def show_int_def pad2_def dec.simps digit_def)
qed

subsection \<open>The claims\<close>




text \<open>
  C6. \<^verbatim>\<open>getClockInfo\<close> throws a \<^verbatim>\<open>std::runtime_error\<close> exactly when the
  current instant has no broken-down local time (\<^verbatim>\<open>localtime\<close> returns null:
  ``Failed to get current datetime''), or \<^verbatim>\<open>sysinfo\<close> does not return 0, or the
  boot instant has no broken-down local time. What is thrown carries a message
  and no part of the result. The two calls of \<^verbatim>\<open>strftime\<close> cannot fail: the
  text and its terminator take at most 28 of the 256 bytes, so an array that
  \<^verbatim>\<open>strftime\<close> left unspecified is never read. When nothing is thrown, both
  strings are the local broken-down times in the format
  \<^verbatim>\<open>%Y-%m-%dT%H:%M:%SZ\<close>, which is what \<^verbatim>\<open>%FT%TZ\<close> asks for (the year as
  the C library prints it, \<^verbatim>\<open>tm_year + 1900\<close> taken in \<^verbatim>\<open>int\<close>). The clock
  reading itself is taken as \<^verbatim>\<open>time\<close> returns it: with a null argument and a
  \<^verbatim>\<open>time_t\<close> of 64 bits the call has no error to report.
\<close>

theorem getClockInfo_failure:
  "((\<exists>msg. getClockInfo host = Inl (runtime_error msg)) \<longleftrightarrow>
      localtime (utc_offset host) (sint (clock host)) = None \<or>
      sysinfo_ret host \<noteq> 0 \<or>
      localtime (utc_offset host) (sint (clock host - uptime host)) = None) \<and>
   getClockInfo host \<noteq> Inl unspecified_read \<and>
   (\<forall>info. getClockInfo host = Inr info \<longrightarrow>
      (\<exists>now boot.
         localtime (utc_offset host) (sint (clock host)) = Some now \<and>
         localtime (utc_offset host) (sint (clock host - uptime host)) = Some boot \<and>
         CurrentDatetime info = expand ''%Y-%m-%dT%H:%M:%SZ'' now \<and>
         BootDatetime info = expand ''%Y-%m-%dT%H:%M:%SZ'' boot))"
  unfolding getClockInfo_cases expand_long_format
  by (auto split: option.splits)

theorem getClockInfo_failure_witness:
  "getClockInfo \<lparr>clock = 1698541800, utc_offset = (\<lambda>t. 3600), sysinfo_ret = 0, uptime = 2400\<rparr> =
     Inr \<lparr>BootDatetime = ''2023-10-29T01:30:00Z'', CurrentDatetime = ''2023-10-29T02:10:00Z''\<rparr> \<and>
   (\<exists>now boot.
      localtime (\<lambda>t. 3600) 1698541800 = Some now \<and> localtime (\<lambda>t. 3600) 1698539400 = Some boot \<and>
      ''2023-10-29T02:10:00Z'' = expand ''%Y-%m-%dT%H:%M:%SZ'' now \<and>
      ''2023-10-29T01:30:00Z'' = expand ''%Y-%m-%dT%H:%M:%SZ'' boot)"
proof -
  let ?h = "\<lparr>clock = 1698541800, utc_offset = (\<lambda>t. 3600), sysinfo_ret = 0, uptime = 2400\<rparr>"
  have run: "getClockInfo ?h =
     Inr \<lparr>BootDatetime = ''2023-10-29T01:30:00Z'', CurrentDatetime = ''2023-10-29T02:10:00Z''\<rparr>"
    by (rule getClockInfo_fixed_offset)
  show ?thesis
    using getClockInfo_failure [of ?h] run by simp
qed

end
